theory Spec2Isabelle
  imports Complex_Main
begin

section \<open>PR reviewer rotation: a model of \<^verbatim>\<open>.github/scripts/assign_reviewer.py\<close>\<close>

text \<open>
  The script picks the primary reviewer of a pull request from a list of maintainers that
  is rotated once per sprint. Everything the script reads from outside (the clock, the two
  files, the two HTTP calls, the process's string-hash seed) is a field of the record
  \<open>world\<close>; what it writes is returned as the list of POST requests it issued. Exceptions of
  the Python runtime are values of \<open>py_error\<close>.
\<close>

subsection \<open>Python runtime: errors, floored modulo, slices\<close>

datatype py_error = ZeroDivisionError | IndexError

text \<open>\<^verbatim>\<open>a % b\<close> on Python ints: floored, the sign of the divisor; raises on \<open>b = 0\<close>.\<close>

definition py_mod :: "int \<Rightarrow> int \<Rightarrow> py_error + int" where
  "py_mod a b = (if b = 0 then Inl ZeroDivisionError else Inr (a mod b))"

text \<open>
  \<^verbatim>\<open>xs[i]\<close> reads position \<open>i\<close>, or position \<open>|xs| + i\<close> for \<open>i\<close> below zero, and raises
  when that position does not exist.
\<close>

definition py_index :: "'a list \<Rightarrow> int \<Rightarrow> py_error + 'a" where
  "py_index xs i =
     (if i < - int (length xs) \<or> int (length xs) \<le> i then Inl IndexError
      else if i < 0 then Inr (xs ! nat (int (length xs) + i))
      else Inr (xs ! nat i))"

text \<open>
  \<^verbatim>\<open>xs[i:]\<close> and \<^verbatim>\<open>xs[:i]\<close>: a negative bound counts from the end, and every bound is
  clipped to the list. A slice never raises.
\<close>

definition slice_bound :: "'a list \<Rightarrow> int \<Rightarrow> nat" where
  "slice_bound xs i = nat (if i < 0 then max 0 (int (length xs) + i) else i)"

definition slice_from :: "'a list \<Rightarrow> int \<Rightarrow> 'a list" where
  "slice_from xs i = drop (slice_bound xs i) xs"

definition slice_to :: "'a list \<Rightarrow> int \<Rightarrow> 'a list" where
  "slice_to xs i = take (slice_bound xs i) xs"

subsection \<open>Naive datetimes\<close>

text \<open>
  A naive \<^verbatim>\<open>datetime\<close> is a point of the proleptic Gregorian timeline, here the number of
  microseconds since 0001-01-01 00:00:00. The difference of two datetimes is a
  \<^verbatim>\<open>timedelta\<close>, whose \<^verbatim>\<open>.days\<close> is the floor of the difference in days (its seconds and
  microseconds are kept non-negative).
\<close>

type_synonym datetime = int

definition us_per_day :: int where
  "us_per_day = 86400 * 1000000"

definition is_leap :: "int \<Rightarrow> bool" where
  "is_leap y = (y mod 4 = 0 \<and> (y mod 100 \<noteq> 0 \<or> y mod 400 = 0))"

definition days_before_year :: "int \<Rightarrow> int" where
  "days_before_year y = (y - 1) * 365 + (y - 1) div 4 - (y - 1) div 100 + (y - 1) div 400"

definition days_before_month :: "int \<Rightarrow> int \<Rightarrow> int" where
  "days_before_month y m =
     [0, 31, 59, 90, 120, 151, 181, 212, 243, 273, 304, 334] ! nat (m - 1)
       + (if 2 < m \<and> is_leap y then 1 else 0)"

text \<open>\<^verbatim>\<open>datetime(y, m, d)\<close> for a valid date: midnight of that day.\<close>

definition datetime_ymd :: "int \<Rightarrow> int \<Rightarrow> int \<Rightarrow> datetime" where
  "datetime_ymd y m d = (days_before_year y + days_before_month y m + d - 1) * us_per_day"

text \<open>\<^verbatim>\<open>(a - b).days\<close>\<close>

definition timedelta_days :: "datetime \<Rightarrow> datetime \<Rightarrow> int" where
  "timedelta_days a b = (a - b) div us_per_day"

subsection \<open>Configuration and the assigner object\<close>

definition SPRINT_WEEKS :: int where
  "SPRINT_WEEKS = 3"

record sprint_cfg =
  weeks_per_sprint :: int
  reviewers_per_pr :: int
  pool_size :: int

record config =
  sprint_config :: sprint_cfg

text \<open>
  What opening and parsing \<^verbatim>\<open>.github/scripts/config.json\<close> can do: the file is missing,
  reading or parsing it fails, or it yields a configuration (taken to be well-formed: the
  three keys present, with integer values).
\<close>

datatype config_file = ConfigNotFound | ConfigError | ConfigLoaded config

definition default_config :: config where
  "default_config =
     \<lparr>sprint_config = \<lparr>weeks_per_sprint = 3, reviewers_per_pr = 2, pool_size = 3\<rparr>\<rparr>"

definition load_config :: "config_file \<Rightarrow> config" where
  "load_config f =
     (case f of
        ConfigLoaded c \<Rightarrow> c
      | ConfigNotFound \<Rightarrow> default_config
      | ConfigError \<Rightarrow> default_config)"

record assigner =
  repo :: string
  token :: string
  test_mode :: bool
  config :: config

text \<open>The constructor \<^verbatim>\<open>ReviewerAssigner(repo, token, test_mode)\<close>.\<close>

definition ReviewerAssigner :: "string \<Rightarrow> string \<Rightarrow> bool \<Rightarrow> config_file \<Rightarrow> assigner" where
  "ReviewerAssigner r t tm f = \<lparr>repo = r, token = t, test_mode = tm, config = load_config f\<rparr>"

subsection \<open>The world outside the script\<close>

datatype file_read = FileNotFound | ReadError | Content string

datatype 'a response = RequestException | Ok 'a

text \<open>
  \<open>hash_order\<close> is the order in which this process iterates over a set of strings. A
  Python set is represented by the list of its distinct elements; CPython places a string
  in the set's table by its hash, and string hashes are salted with a seed drawn at
  process start, so the order is an input of the run and not a function of the set alone.
  \<open>reviewers_response\<close> is the outcome of the GET on \<^verbatim>\<open>requested_reviewers\<close>: the
  logins under the key \<^verbatim>\<open>users\<close>, when the key is present. \<open>post_response\<close> is the outcome
  the POST would have.
\<close>

record world =
  config_json :: config_file
  maintainers_md :: file_read
  hash_order :: "string list \<Rightarrow> string list"
  now :: datetime
  reviewers_response :: "string list option response"
  post_response :: "unit response"

subsection \<open>Extracting the maintainers\<close>

text \<open>The character class \<^verbatim>\<open>[a-zA-Z0-9_-]\<close>.\<close>

definition username_char :: "char \<Rightarrow> bool" where
  "username_char c =
     (let n = (of_char c :: nat)
      in (97 \<le> n \<and> n \<le> 122) \<or> (65 \<le> n \<and> n \<le> 90) \<or> (48 \<le> n \<and> n \<le> 57)
         \<or> c = CHR ''_'' \<or> c = CHR ''-'')"

fun strip_prefix :: "string \<Rightarrow> string \<Rightarrow> string option" where
  "strip_prefix [] s = Some s"
| "strip_prefix (p # ps) [] = None"
| "strip_prefix (p # ps) (c # cs) = (if p = c then strip_prefix ps cs else None)"

text \<open>
  Matching a pattern at the start of the input gives the captured group and the input
  after the match. A greedy \<^verbatim>\<open>[a-zA-Z0-9_-]+\<close> takes the longest run: giving a character
  back never helps, since what follows it in both patterns is not in the class.
\<close>

definition match_at :: "string \<Rightarrow> (string \<times> string) option" where
  "match_at s =
     (case strip_prefix ''@'' s of
        None \<Rightarrow> None
      | Some s1 \<Rightarrow>
          if takeWhile username_char s1 = [] then None
          else Some (takeWhile username_char s1, dropWhile username_char s1))"

definition match_link :: "string \<Rightarrow> (string \<times> string) option" where
  "match_link s =
     (case strip_prefix ''['' s of
        None \<Rightarrow> None
      | Some s1 \<Rightarrow>
          if takeWhile username_char s1 = [] then None
          else
            (case strip_prefix ''](https://github.com/'' (dropWhile username_char s1) of
               None \<Rightarrow> None
             | Some s2 \<Rightarrow>
                 if takeWhile username_char s2 = [] then None
                 else
                   (case strip_prefix '')'' (dropWhile username_char s2) of
                      None \<Rightarrow> None
                    | Some s3 \<Rightarrow> Some (takeWhile username_char s1, s3))))"

text \<open>
  \<^verbatim>\<open>re.findall\<close> with one group, for each of the two patterns: scan from the left,
  collect the group of every match, resume after the match; where nothing matches, move on
  by one character.
\<close>

function findall_at :: "string \<Rightarrow> string list" where
  "findall_at [] = []"
| "findall_at (c # cs) =
     (case match_at (c # cs) of
        Some (g, rest) \<Rightarrow> g # findall_at rest
      | None \<Rightarrow> findall_at cs)"
  by pat_completeness auto
termination
proof (relation "measure length")
  fix c cs x g rest
  assume "match_at (c # cs) = Some x" and "(g, rest) = x"
  then have "rest = dropWhile username_char cs"
    by (auto simp: match_at_def split: option.splits if_splits)
  then have "length rest \<le> length cs"
    by (simp add: length_dropWhile_le)
  then show "(rest, c # cs) \<in> measure length"
    by simp
qed simp_all

function findall_link :: "string \<Rightarrow> string list" where
  "findall_link [] = []"
| "findall_link (c # cs) =
     (case match_link (c # cs) of
        Some (g, rest) \<Rightarrow> g # findall_link rest
      | None \<Rightarrow> findall_link cs)"
  by pat_completeness auto
termination
proof (relation "measure length")
  have strip: "length s = length p + length r" if "strip_prefix p s = Some r" for p s r
    using that by (induction p s rule: strip_prefix.induct) (auto split: if_splits)
  fix c cs x g rest
  assume "match_link (c # cs) = Some x" and "(g, rest) = x"
  then obtain s1 s2 where 1: "strip_prefix ''['' (c # cs) = Some s1"
    and 2: "strip_prefix ''](https://github.com/'' (dropWhile username_char s1) = Some s2"
    and 3: "strip_prefix '')'' (dropWhile username_char s2) = Some rest"
    by (auto simp: match_link_def split: option.splits if_splits)
  have "length rest \<le> length (dropWhile username_char s2)"
    using strip [OF 3] by simp
  also have "\<dots> \<le> length s2"
    by (rule length_dropWhile_le)
  also have "\<dots> \<le> length (dropWhile username_char s1)"
    using strip [OF 2] by simp
  also have "\<dots> \<le> length s1"
    by (rule length_dropWhile_le)
  also have "\<dots> < length (c # cs)"
    using strip [OF 1] by simp
  finally show "(rest, c # cs) \<in> measure length"
    by simp
qed simp_all

text \<open>\<^verbatim>\<open>usernames.update(xs)\<close> on the representation of a set.\<close>

definition set_update :: "string list \<Rightarrow> string list \<Rightarrow> string list" where
  "set_update s xs = fold (\<lambda>x acc. if x \<in> set acc then acc else acc @ [x]) xs s"

definition get_maintainers :: "world \<Rightarrow> string list" where
  "get_maintainers w =
     (case maintainers_md w of
        FileNotFound \<Rightarrow> []
      | ReadError \<Rightarrow> []
      | Content content \<Rightarrow>
          (let usernames = set_update [] (findall_at content);
               usernames = set_update usernames (findall_link content);
               maintainers = hash_order w usernames
           in maintainers))"

subsection \<open>Sprint number and reviewer pool\<close>

definition get_sprint_start_date :: datetime where
  "get_sprint_start_date = datetime_ymd 2024 1 1"

text \<open>\<open>current_date\<close> stands for the value of \<^verbatim>\<open>datetime.now()\<close>.\<close>

definition get_current_sprint_number :: "assigner \<Rightarrow> datetime \<Rightarrow> int" where
  "get_current_sprint_number a current_date =
     (let start_date = get_sprint_start_date;
          days_diff = timedelta_days current_date start_date;
          sprint_number = days_diff div (SPRINT_WEEKS * 7) + 1
      in sprint_number)"

definition start_index :: "string list \<Rightarrow> int \<Rightarrow> py_error + int" where
  "start_index maintainers sprint_number = py_mod (sprint_number - 1) (int (length maintainers))"

text \<open>
  The body of \<^verbatim>\<open>get_reviewer_pool\<close> as a function of the three values it reads: the
  maintainers, the sprint number and the configured pool size.
\<close>

definition reviewer_pool :: "string list \<Rightarrow> int \<Rightarrow> int \<Rightarrow> py_error + string list" where
  "reviewer_pool maintainers sprint_number configured_size =
     (if maintainers = [] then Inr []
      else
        (case start_index maintainers sprint_number of
           Inl e \<Rightarrow> Inl e
         | Inr i \<Rightarrow>
             (let rotated_pool = slice_from maintainers i @ slice_to maintainers i;
                  size = min configured_size (int (length rotated_pool));
                  current_pool = slice_to rotated_pool size
              in Inr current_pool)))"

definition get_reviewer_pool :: "assigner \<Rightarrow> world \<Rightarrow> py_error + string list" where
  "get_reviewer_pool a w =
     reviewer_pool (get_maintainers w) (get_current_sprint_number a (now w))
       (pool_size (sprint_config (config a)))"

subsection \<open>Reading and writing the reviewers of a pull request\<close>

definition get_pr_reviewers :: "assigner \<Rightarrow> world \<Rightarrow> int \<Rightarrow> string set" where
  "get_pr_reviewers a w pr_number =
     (case reviewers_response w of
        RequestException \<Rightarrow> {}
      | Ok data \<Rightarrow> (case data of None \<Rightarrow> {} | Some users \<Rightarrow> set users))"

text \<open>A POST that was issued: the pull request and the \<^verbatim>\<open>reviewers\<close> of its body.\<close>

type_synonym post = "int \<times> string list"

definition assign_reviewers :: "assigner \<Rightarrow> world \<Rightarrow> int \<Rightarrow> string list \<Rightarrow> bool \<times> post list" where
  "assign_reviewers a w pr_number reviewers =
     (if reviewers = [] then (False, [])
      else if test_mode a then (True, [])
      else
        (case post_response w of
           Ok u \<Rightarrow> (True, [(pr_number, reviewers)])
         | RequestException \<Rightarrow> (False, [(pr_number, reviewers)])))"

subsection \<open>One run\<close>

definition run :: "assigner \<Rightarrow> world \<Rightarrow> int \<Rightarrow> py_error + bool \<times> post list" where
  "run a w pr_number =
     (let current_reviewers = get_pr_reviewers a w pr_number
      in case get_reviewer_pool a w of
           Inl e \<Rightarrow> Inl e
         | Inr pool \<Rightarrow>
             if pool = [] then Inr (False, [])
             else
               (case py_index pool 0 of
                  Inl e \<Rightarrow> Inl e
                | Inr sprint_reviewer \<Rightarrow>
                    if sprint_reviewer \<in> current_reviewers then Inr (True, [])
                    else Inr (assign_reviewers a w pr_number [sprint_reviewer])))"

text \<open>
  \<^verbatim>\<open>main\<close>: the exit status of the process and the POSTs it issued. \<open>env_token\<close> is the
  value of \<^verbatim>\<open>GITHUB_TOKEN\<close> in the environment; an exception that nothing catches ends
  the process with status 1.
\<close>

definition main :: "string option \<Rightarrow> string \<Rightarrow> int \<Rightarrow> bool \<Rightarrow> world \<Rightarrow> int \<times> post list" where
  "main env_token repo_arg pr_number dry w =
     (case env_token of
        None \<Rightarrow> (1, [])
      | Some t \<Rightarrow>
          if t = [] then (1, [])
          else
            (case run (ReviewerAssigner repo_arg t dry (config_json w)) w pr_number of
               Inl e \<Rightarrow> (1, [])
             | Inr (success, posts) \<Rightarrow> (if \<not> success then 1 else 0, posts)))"

subsection \<open>Example inputs\<close>

definition example_assigner :: assigner where
  "example_assigner = ReviewerAssigner ''bootc-dev/ci-sandbox'' ''t0ken'' False ConfigNotFound"

definition example_world :: world where
  "example_world =
     \<lparr>config_json = ConfigNotFound,
      maintainers_md = Content ''# Maintainers: @alice, @bob, @carol'',
      hash_order = (\<lambda>xs. xs),
      now = datetime_ymd 2024 1 22,
      reviewers_response = Ok (Some [''dave'']),
      post_response = Ok ()\<rparr>"

definition weekly_assigner :: assigner where
  "weekly_assigner =
     ReviewerAssigner ''bootc-dev/ci-sandbox'' ''t0ken'' False
       (ConfigLoaded \<lparr>sprint_config = \<lparr>weeks_per_sprint = 1, reviewers_per_pr = 2, pool_size = 3\<rparr>\<rparr>)"

definition offline_world :: world where
  "offline_world = example_world\<lparr>reviewers_response := RequestException\<rparr>"

definition dry_run_assigner :: assigner where
  "dry_run_assigner = example_assigner\<lparr>test_mode := True\<rparr>"

definition unreachable_world :: world where
  "unreachable_world = offline_world\<lparr>post_response := RequestException\<rparr>"

definition reseeded_world :: world where
  "reseeded_world = example_world\<lparr>hash_order := rev\<rparr>"

definition empty_world :: world where
  "empty_world =
     example_world
       \<lparr>config_json := ConfigLoaded \<lparr>sprint_config = \<lparr>weeks_per_sprint = 3, reviewers_per_pr = 2, pool_size = 0\<rparr>\<rparr>,
        maintainers_md := FileNotFound\<rparr>"

section \<open>The reviewer pool\<close>

lemma slice_bound_nonneg: "0 \<le> i \<Longrightarrow> slice_bound xs i = nat i"
  by (simp add: slice_bound_def)

lemma start_index_Inr:
  "M \<noteq> [] \<Longrightarrow> start_index M s = Inr ((s - 1) mod int (length M))"
  by (simp add: start_index_def py_mod_def)

lemma reviewer_pool_nonempty:
  assumes "M \<noteq> []"
  shows "reviewer_pool M s k =
    Inr (slice_to (drop (nat ((s - 1) mod int (length M))) M @ take (nat ((s - 1) mod int (length M))) M)
           (min k (int (length M))))"
proof -
  have pos: "0 \<le> (s - 1) mod int (length M)"
    using assms by simp
  have lt: "(s - 1) mod int (length M) < int (length M)"
    using assms by simp
  have len: "length (drop (nat ((s - 1) mod int (length M))) M @ take (nat ((s - 1) mod int (length M))) M) = length M"
    using lt by simp
  show ?thesis
    using assms len
    by (simp add: reviewer_pool_def start_index_Inr slice_from_def slice_to_def
        slice_bound_nonneg [OF pos] Let_def del: length_append)
qed

text \<open>
  Claim C1. For a non-empty maintainer list \<open>M\<close>, any sprint number \<open>s\<close> and a pool size
  \<open>k\<close> (a size: \<open>0 \<le> k\<close>), the pool is \<open>M\<close> rotated left by \<open>(s - 1) mod |M|\<close>, that is
  \<open>M[offset:] ++ M[:offset]\<close>, cut to its first \<open>min k |M|\<close> elements; for the empty list
  the pool is empty.
\<close>

theorem reviewer_pool_rotate_truncate:
  "(M \<noteq> [] \<longrightarrow> 0 \<le> k \<longrightarrow>
      reviewer_pool M s k =
        Inr (take (nat (min k (int (length M))))
              (drop (nat ((s - 1) mod int (length M))) M @ take (nat ((s - 1) mod int (length M))) M))
      \<and> drop (nat ((s - 1) mod int (length M))) M @ take (nat ((s - 1) mod int (length M))) M
          = rotate (nat ((s - 1) mod int (length M))) M)
   \<and> reviewer_pool [] s k = Inr []"
proof -
  have "reviewer_pool [] s k = Inr []"
    by (simp add: reviewer_pool_def)
  moreover have "reviewer_pool M s k =
        Inr (take (nat (min k (int (length M))))
              (drop (nat ((s - 1) mod int (length M))) M @ take (nat ((s - 1) mod int (length M))) M))"
    if "M \<noteq> []" "0 \<le> k"
    using that by (simp add: reviewer_pool_nonempty slice_to_def slice_bound_nonneg)
  moreover have "drop (nat ((s - 1) mod int (length M))) M @ take (nat ((s - 1) mod int (length M))) M
          = rotate (nat ((s - 1) mod int (length M))) M" if "M \<noteq> []"
  proof -
    have "nat ((s - 1) mod int (length M)) < length M"
      using that by (simp add: nat_less_iff)
    then show ?thesis
      by (simp add: rotate_drop_take)
  qed
  ultimately show ?thesis
    by blast
qed

theorem reviewer_pool_rotate_truncate_witness:
  "[''alice'', ''bob'', ''carol''] \<noteq> [] \<and> (0::int) \<le> 2
   \<and> reviewer_pool [''alice'', ''bob'', ''carol''] 2 3 = Inr [''bob'', ''carol'', ''alice'']
   \<and> reviewer_pool [''alice'', ''bob'', ''carol''] 2 2 = Inr [''bob'', ''carol'']"
  using reviewer_pool_rotate_truncate [where M = "[''alice'', ''bob'', ''carol'']" and s = 2 and k = 3]
    reviewer_pool_rotate_truncate [where M = "[''alice'', ''bob'', ''carol'']" and s = 2 and k = 2]
  by simp

text \<open>
  Claim C4. For a non-empty maintainer list and any sprint number, also zero or negative,
  the rotation offset is an index of the list: \<open>0 \<le> offset < |M|\<close>. Both slices then
  count from the front, and building the pool raises nothing.
\<close>

theorem start_index_in_range:
  "M \<noteq> [] \<Longrightarrow>
     (\<exists>i. start_index M s = Inr i \<and> 0 \<le> i \<and> i < int (length M)
          \<and> slice_from M i = drop (nat i) M \<and> slice_to M i = take (nat i) M)
     \<and> (\<exists>pool. reviewer_pool M s k = Inr pool)"
  by (simp add: start_index_Inr reviewer_pool_nonempty slice_from_def slice_to_def slice_bound_nonneg)

theorem start_index_in_range_witness:
  "[''alice'', ''bob'', ''carol''] \<noteq> []
   \<and> start_index [''alice'', ''bob'', ''carol''] (- 4) = Inr 1
   \<and> reviewer_pool [''alice'', ''bob'', ''carol''] (- 4) 3 = Inr [''bob'', ''carol'', ''alice'']"
  using start_index_in_range [where M = "[''alice'', ''bob'', ''carol'']" and s = "- 4" and k = 3]
  by (simp add: start_index_def py_mod_def reviewer_pool_def slice_from_def slice_to_def slice_bound_def)

text \<open>
  Claim C9. The pool is periodic in the sprint number with period \<open>|M|\<close>, for every
  maintainer list, sprint number and pool size.
\<close>

theorem reviewer_pool_periodic:
  "reviewer_pool M s k = reviewer_pool M (s + int (length M)) k"
proof (cases "M = []")
  case True
  then show ?thesis
    by (simp add: reviewer_pool_def)
next
  case False
  have "s + int (length M) - 1 = (s - 1) + int (length M)"
    by simp
  then have "(s + int (length M) - 1) mod int (length M) = (s - 1) mod int (length M)"
    by (simp only: mod_add_self2)
  with False show ?thesis
    by (simp add: reviewer_pool_nonempty)
qed

section \<open>The sprint number\<close>

lemma us_per_day_pos: "0 < us_per_day"
  by (simp add: us_per_day_def)

lemma sprint_number_eq:
  "get_current_sprint_number a t = (t - get_sprint_start_date) div us_per_day div 21 + 1"
  by (simp add: get_current_sprint_number_def timedelta_days_def SPRINT_WEEKS_def)

text \<open>
  Claim C3, as the code has it. The sprint number is the floor of the time since the
  epoch, in days, over the days of a sprint, plus one, where the sprint length is the
  constant \<open>SPRINT_WEEKS = 3\<close> and not a value of the loaded configuration. Before the
  epoch the result is zero or negative, and nothing is raised.
\<close>

theorem sprint_number_floor:
  "get_current_sprint_number a t =
     \<lfloor>(real_of_int (t - get_sprint_start_date) / real_of_int us_per_day)
        / real_of_int (SPRINT_WEEKS * 7)\<rfloor> + 1
   \<and> (t < get_sprint_start_date \<longrightarrow> get_current_sprint_number a t \<le> 0)"
proof
  have "(real_of_int (t - get_sprint_start_date) / real_of_int us_per_day) / real_of_int (SPRINT_WEEKS * 7)
      = real_of_int (t - get_sprint_start_date) / real_of_int (us_per_day * 21)"
    by (simp add: SPRINT_WEEKS_def)
  then have "\<lfloor>(real_of_int (t - get_sprint_start_date) / real_of_int us_per_day) / real_of_int (SPRINT_WEEKS * 7)\<rfloor>
      = (t - get_sprint_start_date) div (us_per_day * 21)"
    by (simp only: floor_divide_of_int_eq)
  also have "\<dots> = (t - get_sprint_start_date) div us_per_day div 21"
    by (rule zdiv_zmult2_eq) simp
  finally show "get_current_sprint_number a t =
     \<lfloor>(real_of_int (t - get_sprint_start_date) / real_of_int us_per_day)
        / real_of_int (SPRINT_WEEKS * 7)\<rfloor> + 1"
    by (simp add: sprint_number_eq)
next
  show "t < get_sprint_start_date \<longrightarrow> get_current_sprint_number a t \<le> 0"
  proof
    assume "t < get_sprint_start_date"
    then have "(t - get_sprint_start_date) div us_per_day < 0"
      using us_per_day_pos by (simp add: pos_imp_zdiv_neg_iff)
    then have "(t - get_sprint_start_date) div us_per_day div 21 < 0"
      by (simp add: pos_imp_zdiv_neg_iff)
    then show "get_current_sprint_number a t \<le> 0"
      by (simp add: sprint_number_eq)
  qed
qed

theorem sprint_number_floor_witness:
  "datetime_ymd 2023 12 31 < get_sprint_start_date
   \<and> get_current_sprint_number example_assigner (datetime_ymd 2023 12 31) = 0
   \<and> get_current_sprint_number example_assigner (datetime_ymd 2024 1 22) = 2"
  using sprint_number_floor [where t = "datetime_ymd 2023 12 31" and a = example_assigner]
  by (simp add: get_current_sprint_number_def timedelta_days_def SPRINT_WEEKS_def
      get_sprint_start_date_def datetime_ymd_def days_before_year_def
      days_before_month_def is_leap_def us_per_day_def)

text \<open>
  Claim C3, as stated, takes the sprint length from the configuration. With
  \<open>weeks_per_sprint = 1\<close> configured, one week after the epoch the formula gives sprint 2;
  the script is still in sprint 1.
\<close>

theorem sprint_number_configured_counterexample:
  "get_current_sprint_number weekly_assigner (datetime_ymd 2024 1 8) \<noteq>
     \<lfloor>(real_of_int (datetime_ymd 2024 1 8 - get_sprint_start_date) / real_of_int us_per_day)
        / real_of_int (weeks_per_sprint (sprint_config (config weekly_assigner)) * 7)\<rfloor> + 1"
  by (simp add: get_current_sprint_number_def timedelta_days_def SPRINT_WEEKS_def
      get_sprint_start_date_def datetime_ymd_def days_before_year_def
      days_before_month_def is_leap_def us_per_day_def weekly_assigner_def
      ReviewerAssigner_def load_config_def)

text \<open>
  Claim C8, as stated, steps by the configured sprint length. With \<open>weeks_per_sprint = 1\<close>
  configured, one week on from the epoch the sprint number is still 1, not 2.
\<close>

theorem sprint_step_configured_counterexample:
  "get_sprint_start_date \<le> datetime_ymd 2024 1 1
   \<and> get_current_sprint_number weekly_assigner
         (datetime_ymd 2024 1 1
            + weeks_per_sprint (sprint_config (config weekly_assigner)) * 7 * us_per_day) = 1
   \<and> get_current_sprint_number weekly_assigner
         (datetime_ymd 2024 1 1
            + weeks_per_sprint (sprint_config (config weekly_assigner)) * 7 * us_per_day)
       \<noteq> get_current_sprint_number weekly_assigner (datetime_ymd 2024 1 1) + 1"
  by (simp add: get_current_sprint_number_def timedelta_days_def SPRINT_WEEKS_def
      get_sprint_start_date_def datetime_ymd_def days_before_year_def
      days_before_month_def is_leap_def us_per_day_def weekly_assigner_def
      ReviewerAssigner_def load_config_def)

text \<open>
  Claim C8, as the code has it. From the epoch on, the sprint number does not decrease as
  the clock advances, and advancing the clock by \<open>SPRINT_WEEKS * 7\<close> days, the constant 21
  whatever sprint length is configured, raises it by exactly one.
\<close>

theorem sprint_number_monotone_step:
  "(get_sprint_start_date \<le> t1 \<longrightarrow> t1 \<le> t2 \<longrightarrow>
      get_current_sprint_number a t1 \<le> get_current_sprint_number a t2)
   \<and> get_current_sprint_number a (t + SPRINT_WEEKS * 7 * us_per_day)
       = get_current_sprint_number a t + 1"
proof
  show "get_sprint_start_date \<le> t1 \<longrightarrow> t1 \<le> t2 \<longrightarrow>
      get_current_sprint_number a t1 \<le> get_current_sprint_number a t2"
  proof (intro impI)
    assume "t1 \<le> t2"
    then have "(t1 - get_sprint_start_date) div us_per_day \<le> (t2 - get_sprint_start_date) div us_per_day"
      using us_per_day_pos by (simp add: zdiv_mono1)
    then have "(t1 - get_sprint_start_date) div us_per_day div 21
        \<le> (t2 - get_sprint_start_date) div us_per_day div 21"
      by (simp add: zdiv_mono1)
    then show "get_current_sprint_number a t1 \<le> get_current_sprint_number a t2"
      by (simp add: sprint_number_eq)
  qed
next
  have eq: "t + SPRINT_WEEKS * 7 * us_per_day - get_sprint_start_date
      = (t - get_sprint_start_date) + 21 * us_per_day"
    by (simp add: SPRINT_WEEKS_def)
  have "((t - get_sprint_start_date) + 21 * us_per_day) div us_per_day
      = (t - get_sprint_start_date) div us_per_day + 21"
    using us_per_day_pos by simp
  then have "(t + SPRINT_WEEKS * 7 * us_per_day - get_sprint_start_date) div us_per_day
      = (t - get_sprint_start_date) div us_per_day + 21"
    by (simp only: eq)
  then show "get_current_sprint_number a (t + SPRINT_WEEKS * 7 * us_per_day)
       = get_current_sprint_number a t + 1"
    by (simp add: sprint_number_eq)
qed

theorem sprint_number_monotone_step_witness:
  "get_sprint_start_date \<le> datetime_ymd 2024 1 21
   \<and> datetime_ymd 2024 1 21 \<le> datetime_ymd 2024 1 22
   \<and> get_current_sprint_number example_assigner (datetime_ymd 2024 1 21) = 1
   \<and> get_current_sprint_number example_assigner (datetime_ymd 2024 1 22) = 2"
  using sprint_number_monotone_step [where ?t1.0 = "datetime_ymd 2024 1 21"
      and ?t2.0 = "datetime_ymd 2024 1 22" and a = example_assigner]
  by (simp add: get_current_sprint_number_def timedelta_days_def SPRINT_WEEKS_def
      get_sprint_start_date_def datetime_ymd_def days_before_year_def
      days_before_month_def is_leap_def us_per_day_def)

section \<open>What the configuration decides\<close>

lemma run_reads_pool_size:
  assumes "test_mode a1 = test_mode a2"
    and "pool_size (sprint_config (config a1)) = pool_size (sprint_config (config a2))"
  shows "run a1 w n = run a2 w n"
proof -
  have "get_reviewer_pool a1 w = get_reviewer_pool a2 w"
    using assms by (simp add: get_reviewer_pool_def get_current_sprint_number_def)
  moreover have "assign_reviewers a1 w n rs = assign_reviewers a2 w n rs" for rs
    using assms by (simp add: assign_reviewers_def)
  ultimately show ?thesis
    by (simp add: run_def get_pr_reviewers_def split: sum.split)
qed

lemma run_config_json: "run a (w\<lparr>config_json := f\<rparr>) n = run a w n"
proof -
  have "get_reviewer_pool a (w\<lparr>config_json := f\<rparr>) = get_reviewer_pool a w"
    by (simp add: get_reviewer_pool_def get_maintainers_def split: file_read.split)
  moreover have "assign_reviewers a (w\<lparr>config_json := f\<rparr>) n rs = assign_reviewers a w n rs" for rs
    by (simp add: assign_reviewers_def)
  ultimately show ?thesis
    by (simp add: run_def get_pr_reviewers_def split: sum.split)
qed

text \<open>
  Claim C10. Of the configuration only \<open>pool_size\<close> is read. Replacing \<open>weeks_per_sprint\<close>
  and \<open>reviewers_per_pr\<close> by any values changes neither the sprint number, which is
  computed with 3 weeks per sprint, nor the pool, nor the outcome of the run and the
  requests it sends, nor the exit status of the process.
\<close>

theorem config_only_pool_size:
  "get_current_sprint_number
       (a\<lparr>config := \<lparr>sprint_config = (sprint_config (config a))\<lparr>weeks_per_sprint := x, reviewers_per_pr := y\<rparr>\<rparr>\<rparr>) t
     = get_current_sprint_number a t
   \<and> get_current_sprint_number a t = timedelta_days t get_sprint_start_date div (3 * 7) + 1
   \<and> get_reviewer_pool
       (a\<lparr>config := \<lparr>sprint_config = (sprint_config (config a))\<lparr>weeks_per_sprint := x, reviewers_per_pr := y\<rparr>\<rparr>\<rparr>) w
     = get_reviewer_pool a w
   \<and> run
       (a\<lparr>config := \<lparr>sprint_config = (sprint_config (config a))\<lparr>weeks_per_sprint := x, reviewers_per_pr := y\<rparr>\<rparr>\<rparr>) w n
     = run a w n
   \<and> main e r n d
       (w\<lparr>config_json := ConfigLoaded \<lparr>sprint_config = sc\<lparr>weeks_per_sprint := x, reviewers_per_pr := y\<rparr>\<rparr>\<rparr>)
     = main e r n d (w\<lparr>config_json := ConfigLoaded \<lparr>sprint_config = sc\<rparr>\<rparr>)"
proof (intro conjI)
  show "get_current_sprint_number
       (a\<lparr>config := \<lparr>sprint_config = (sprint_config (config a))\<lparr>weeks_per_sprint := x, reviewers_per_pr := y\<rparr>\<rparr>\<rparr>) t
     = get_current_sprint_number a t"
    by (simp add: get_current_sprint_number_def)
  show "get_current_sprint_number a t = timedelta_days t get_sprint_start_date div (3 * 7) + 1"
    by (simp add: get_current_sprint_number_def SPRINT_WEEKS_def)
  show "get_reviewer_pool
       (a\<lparr>config := \<lparr>sprint_config = (sprint_config (config a))\<lparr>weeks_per_sprint := x, reviewers_per_pr := y\<rparr>\<rparr>\<rparr>) w
     = get_reviewer_pool a w"
    by (simp add: get_reviewer_pool_def get_current_sprint_number_def)
  show "run
       (a\<lparr>config := \<lparr>sprint_config = (sprint_config (config a))\<lparr>weeks_per_sprint := x, reviewers_per_pr := y\<rparr>\<rparr>\<rparr>) w n
     = run a w n"
    by (rule run_reads_pool_size) simp_all
  have "run (ReviewerAssigner r t' d (ConfigLoaded \<lparr>sprint_config = sc\<lparr>weeks_per_sprint := x, reviewers_per_pr := y\<rparr>\<rparr>)) w n
      = run (ReviewerAssigner r t' d (ConfigLoaded \<lparr>sprint_config = sc\<rparr>)) w n" for t'
    by (rule run_reads_pool_size) (simp_all add: ReviewerAssigner_def load_config_def)
  then show "main e r n d
       (w\<lparr>config_json := ConfigLoaded \<lparr>sprint_config = sc\<lparr>weeks_per_sprint := x, reviewers_per_pr := y\<rparr>\<rparr>\<rparr>)
     = main e r n d (w\<lparr>config_json := ConfigLoaded \<lparr>sprint_config = sc\<rparr>\<rparr>)"
    by (simp add: main_def run_config_json split: option.split)
qed

section \<open>The maintainer list\<close>

lemma set_update_distinct: "distinct s \<Longrightarrow> distinct (set_update s xs)"
  unfolding set_update_def by (induction xs arbitrary: s) auto

lemma set_update_set: "set (set_update s xs) = set s \<union> set xs"
  unfolding set_update_def by (induction xs arbitrary: s) auto

text \<open>Whatever order the process iterates in, no maintainer is listed twice.\<close>

lemma get_maintainers_distinct:
  assumes "\<And>xs. distinct xs \<Longrightarrow> distinct (hash_order w xs)"
  shows "distinct (get_maintainers w)"
  by (simp add: get_maintainers_def assms set_update_distinct split: file_read.split)

lemma example_findall_at:
  "findall_at ''# Maintainers: @alice, @bob, @carol'' = [''alice'', ''bob'', ''carol'']"
  by (simp add: match_at_def username_char_def)

lemma example_findall_link:
  "findall_link ''# Maintainers: @alice, @bob, @carol'' = []"
  by (simp add: match_link_def username_char_def)

lemma example_usernames:
  "set_update (set_update [] [''alice'', ''bob'', ''carol'']) [] = [''alice'', ''bob'', ''carol'']"
  by (simp add: set_update_def)

lemma example_maintainers:
  "get_maintainers example_world = [''alice'', ''bob'', ''carol'']"
  by (simp add: get_maintainers_def example_world_def example_findall_at example_findall_link
      example_usernames del: findall_at.simps findall_link.simps)

lemma example_sprint: "get_current_sprint_number a (now example_world) = 2"
  by (simp add: example_world_def get_current_sprint_number_def timedelta_days_def SPRINT_WEEKS_def
      get_sprint_start_date_def datetime_ymd_def days_before_year_def
      days_before_month_def is_leap_def us_per_day_def)

lemma example_pool:
  "get_reviewer_pool example_assigner example_world = Inr [''bob'', ''carol'', ''alice'']"
  by (simp add: get_reviewer_pool_def example_maintainers example_sprint)
     (simp add: reviewer_pool_def start_index_def py_mod_def slice_from_def slice_to_def
        slice_bound_def example_assigner_def ReviewerAssigner_def load_config_def default_config_def)

lemma reseeded_maintainers:
  "get_maintainers reseeded_world = [''carol'', ''bob'', ''alice'']"
  by (simp add: get_maintainers_def reseeded_world_def example_world_def example_findall_at
      example_findall_link example_usernames del: findall_at.simps findall_link.simps)

text \<open>
  Claim C7. The maintainer list is free of duplicates, but its order is the iteration
  order of a set of strings, which belongs to the process and not to the document: two
  runs over the same \<^verbatim>\<open>MAINTAINERS.md\<close> whose processes iterate in different orders get
  different lists, and in sprint 1 different primary reviewers.
\<close>

theorem maintainers_order_follows_hash_seed:
  "maintainers_md reseeded_world = maintainers_md example_world
   \<and> get_maintainers example_world = [''alice'', ''bob'', ''carol'']
   \<and> get_maintainers reseeded_world = [''carol'', ''bob'', ''alice'']
   \<and> reviewer_pool (get_maintainers example_world) 1 3 = Inr [''alice'', ''bob'', ''carol'']
   \<and> reviewer_pool (get_maintainers reseeded_world) 1 3 = Inr [''carol'', ''bob'', ''alice'']"
  by (simp add: example_maintainers reseeded_maintainers)
     (simp add: reseeded_world_def reviewer_pool_def start_index_def py_mod_def slice_from_def
        slice_to_def slice_bound_def)

section \<open>The run\<close>

lemma get_reviewer_pool_response:
  "get_reviewer_pool a (w\<lparr>reviewers_response := r\<rparr>) = get_reviewer_pool a w"
  by (simp add: get_reviewer_pool_def get_maintainers_def split: file_read.split)

lemma py_index_first: "py_index (x # xs) 0 = Inr x"
  by (simp add: py_index_def)

lemma run_Cons:
  "get_reviewer_pool a w = Inr (p # ps) \<Longrightarrow>
     run a w n = (if p \<in> get_pr_reviewers a w n then Inr (True, [])
                  else Inr (assign_reviewers a w n [p]))"
  by (simp add: run_def py_index_first)

lemma assign_reviewers_response:
  "assign_reviewers a (w\<lparr>reviewers_response := r\<rparr>) n rs = assign_reviewers a w n rs"
  by (simp add: assign_reviewers_def)

text \<open>
  Claim C2. With a non-empty pool and \<open>primary\<close> its first element: when \<open>primary\<close> is
  among the current reviewers, the run succeeds and sends nothing; otherwise it assigns
  the one-element list \<open>[primary]\<close> and nothing else (a dry run sends nothing, a real
  run one POST for \<open>[primary]\<close>). So once the reviewers of the pull request include
  \<open>primary\<close>, the next run succeeds and sends nothing.
\<close>

theorem run_decides_primary:
  "get_reviewer_pool a w = Inr (p # ps) \<Longrightarrow>
     (p \<in> get_pr_reviewers a w n \<longrightarrow> run a w n = Inr (True, []))
     \<and> (p \<notin> get_pr_reviewers a w n \<longrightarrow>
          run a w n = Inr (assign_reviewers a w n [p])
          \<and> snd (assign_reviewers a w n [p]) = (if test_mode a then [] else [(n, [p])]))
     \<and> (\<forall>users. p \<in> set users \<longrightarrow>
          run a (w\<lparr>reviewers_response := Ok (Some users)\<rparr>) n = Inr (True, []))"
proof (intro conjI impI allI)
  assume pool: "get_reviewer_pool a w = Inr (p # ps)"
  show "run a w n = Inr (True, [])" if "p \<in> get_pr_reviewers a w n"
    using that by (simp add: run_Cons [OF pool])
  show "run a w n = Inr (assign_reviewers a w n [p])" if "p \<notin> get_pr_reviewers a w n"
    using that by (simp add: run_Cons [OF pool])
  show "snd (assign_reviewers a w n [p]) = (if test_mode a then [] else [(n, [p])])"
    by (simp add: assign_reviewers_def split: response.split)
  show "run a (w\<lparr>reviewers_response := Ok (Some users)\<rparr>) n = Inr (True, [])"
    if "p \<in> set users" for users
  proof -
    have "get_reviewer_pool a (w\<lparr>reviewers_response := Ok (Some users)\<rparr>) = Inr (p # ps)"
      using pool by (simp add: get_reviewer_pool_response)
    then show ?thesis
      using that by (simp add: run_Cons get_pr_reviewers_def)
  qed
qed

theorem run_decides_primary_witness:
  "get_reviewer_pool example_assigner example_world = Inr [''bob'', ''carol'', ''alice'']
   \<and> ''bob'' \<notin> get_pr_reviewers example_assigner example_world 7
   \<and> run example_assigner example_world 7 = Inr (True, [(7, [''bob''])])
   \<and> run example_assigner (example_world\<lparr>reviewers_response := Ok (Some [''dave'', ''bob''])\<rparr>) 7
        = Inr (True, [])"
proof -
  have r: "''bob'' \<notin> get_pr_reviewers example_assigner example_world 7"
    by (simp add: get_pr_reviewers_def example_world_def)
  have a: "assign_reviewers example_assigner example_world 7 [''bob''] = (True, [(7, [''bob''])])"
    by (simp add: assign_reviewers_def example_assigner_def ReviewerAssigner_def example_world_def)
  show ?thesis
    using run_decides_primary [OF example_pool, of 7] r a example_pool
    by simp
qed

lemma get_reviewer_pool_token:
  "get_reviewer_pool (ReviewerAssigner r t d f) w = get_reviewer_pool (ReviewerAssigner r t' d f) w"
  by (simp add: get_reviewer_pool_def get_current_sprint_number_def ReviewerAssigner_def)

text \<open>
  Claim C5. When the pool is empty, whatever the current reviewers are, the run fails and
  sends nothing, and the process exits with status 1. The pool is empty in particular
  when there are no maintainers and when the configured pool size is 0.
\<close>

theorem empty_pool_fails:
  "(get_reviewer_pool a w = Inr [] \<longrightarrow> run a w n = Inr (False, []))
   \<and> (get_maintainers w = [] \<longrightarrow> get_reviewer_pool a w = Inr [])
   \<and> (pool_size (sprint_config (config a)) = 0 \<longrightarrow> get_reviewer_pool a w = Inr [])
   \<and> (get_reviewer_pool (ReviewerAssigner r t d (config_json w)) w = Inr [] \<longrightarrow>
        main e r n d w = (1, []))"
proof (intro conjI impI)
  show "run a w n = Inr (False, [])" if "get_reviewer_pool a w = Inr []"
    using that by (simp add: run_def)
  show "get_reviewer_pool a w = Inr []" if "get_maintainers w = []"
    using that by (simp add: get_reviewer_pool_def reviewer_pool_def)
  show "get_reviewer_pool a w = Inr []" if "pool_size (sprint_config (config a)) = 0"
  proof (cases "get_maintainers w = []")
    case True
    then show ?thesis
      by (simp add: get_reviewer_pool_def reviewer_pool_def)
  next
    case False
    then show ?thesis
      using that by (simp add: get_reviewer_pool_def reviewer_pool_nonempty slice_to_def slice_bound_def)
  qed
  show "main e r n d w = (1, [])"
    if "get_reviewer_pool (ReviewerAssigner r t d (config_json w)) w = Inr []"
  proof -
    have "get_reviewer_pool (ReviewerAssigner r t' d (config_json w)) w = Inr []" for t'
      using that get_reviewer_pool_token [of r t' d "config_json w" w t] by simp
    then have "run (ReviewerAssigner r t' d (config_json w)) w n = Inr (False, [])" for t'
      by (simp add: run_def)
    then show ?thesis
      by (simp add: main_def split: option.split)
  qed
qed

theorem empty_pool_fails_witness:
  "get_maintainers empty_world = []
   \<and> pool_size (sprint_config (config (ReviewerAssigner ''bootc-dev/ci-sandbox'' ''t0ken'' False (config_json empty_world)))) = 0
   \<and> get_reviewer_pool (ReviewerAssigner ''bootc-dev/ci-sandbox'' ''t0ken'' False (config_json empty_world)) empty_world = Inr []
   \<and> run (ReviewerAssigner ''bootc-dev/ci-sandbox'' ''t0ken'' False (config_json empty_world)) empty_world 7 = Inr (False, [])
   \<and> main (Some ''t0ken'') ''bootc-dev/ci-sandbox'' 7 False empty_world = (1, [])"
proof -
  have m: "get_maintainers empty_world = []"
    by (simp add: get_maintainers_def empty_world_def)
  have k: "pool_size (sprint_config (config (ReviewerAssigner ''bootc-dev/ci-sandbox'' ''t0ken'' False (config_json empty_world)))) = 0"
    by (simp add: ReviewerAssigner_def load_config_def empty_world_def)
  show ?thesis
    using m k
      empty_pool_fails [where a = "ReviewerAssigner ''bootc-dev/ci-sandbox'' ''t0ken'' False (config_json empty_world)"
        and w = empty_world and n = 7 and r = "''bootc-dev/ci-sandbox''" and t = "''t0ken''" and d = False
        and e = "Some ''t0ken''"]
    by simp
qed

text \<open>
  Claim C6, as stated, has a failed read of the current reviewers end the run in failure
  with nothing written. Here the GET fails, and the run still posts the primary reviewer
  and succeeds.
\<close>

theorem read_failure_counterexample:
  "reviewers_response offline_world = RequestException
   \<and> run example_assigner offline_world 7 = Inr (True, [(7, [''bob''])])"
proof -
  have "get_reviewer_pool example_assigner offline_world = Inr [''bob'', ''carol'', ''alice'']"
    by (simp add: offline_world_def get_reviewer_pool_response example_pool)
  then show ?thesis
    by (simp add: run_Cons get_pr_reviewers_def assign_reviewers_def offline_world_def
        example_assigner_def ReviewerAssigner_def example_world_def)
qed

lemma get_reviewer_pool_test_mode:
  "get_reviewer_pool (a\<lparr>test_mode := b\<rparr>) w = get_reviewer_pool a w"
  by (simp add: get_reviewer_pool_def get_current_sprint_number_def)

lemma get_reviewer_pool_post:
  "get_reviewer_pool a (w\<lparr>post_response := r\<rparr>) = get_reviewer_pool a w"
  by (simp add: get_reviewer_pool_def get_maintainers_def split: file_read.split)

lemma offline_pool:
  "get_reviewer_pool example_assigner offline_world = Inr [''bob'', ''carol'', ''alice'']"
  by (simp add: offline_world_def get_reviewer_pool_response example_pool)

text \<open>
  Claim C6, as the code has it. A failed read of the current reviewers is taken as an empty
  reviewer set, and the run goes on exactly as if the pull request had no reviewers. With
  an empty pool it fails and posts nothing. With a non-empty pool it assigns the primary
  reviewer: a dry run succeeds and posts nothing; otherwise the run posts \<open>[primary]\<close> once
  and succeeds when that POST succeeds and fails when it fails.
\<close>

theorem read_failure_as_no_reviewers:
  "reviewers_response w = RequestException \<Longrightarrow>
     get_pr_reviewers a w n = {}
     \<and> run a w n = run a (w\<lparr>reviewers_response := Ok (Some [])\<rparr>) n
     \<and> (get_reviewer_pool a w = Inr [] \<longrightarrow> run a w n = Inr (False, []))
     \<and> (\<forall>p ps. get_reviewer_pool a w = Inr (p # ps) \<longrightarrow>
          run a w n = Inr (assign_reviewers a w n [p])
          \<and> (test_mode a \<longrightarrow> run a w n = Inr (True, []))
          \<and> (\<not> test_mode a \<longrightarrow> post_response w = Ok () \<longrightarrow>
                run a w n = Inr (True, [(n, [p])]))
          \<and> (\<not> test_mode a \<longrightarrow> post_response w = RequestException \<longrightarrow>
                run a w n = Inr (False, [(n, [p])])))"
proof (intro conjI allI impI)
  assume failed: "reviewers_response w = RequestException"
  then show none: "get_pr_reviewers a w n = {}"
    by (simp add: get_pr_reviewers_def)
  have "get_pr_reviewers a (w\<lparr>reviewers_response := Ok (Some [])\<rparr>) n = {}"
    by (simp add: get_pr_reviewers_def)
  with none show "run a w n = run a (w\<lparr>reviewers_response := Ok (Some [])\<rparr>) n"
    by (simp add: run_def get_reviewer_pool_response assign_reviewers_response split: sum.split)
  show "run a w n = Inr (False, [])" if "get_reviewer_pool a w = Inr []"
    using that by (simp add: run_def)
  fix p ps
  assume pool: "get_reviewer_pool a w = Inr (p # ps)"
  then show assign: "run a w n = Inr (assign_reviewers a w n [p])"
    using none by (simp add: run_Cons)
  show "run a w n = Inr (True, [])" if "test_mode a"
    using that by (simp add: assign assign_reviewers_def)
  show "run a w n = Inr (True, [(n, [p])])" if "\<not> test_mode a" "post_response w = Ok ()"
    using that by (simp add: assign assign_reviewers_def)
  show "run a w n = Inr (False, [(n, [p])])"
    if "\<not> test_mode a" "post_response w = RequestException"
    using that by (simp add: assign assign_reviewers_def)
qed

theorem read_failure_as_no_reviewers_witness:
  "reviewers_response offline_world = RequestException
   \<and> reviewers_response unreachable_world = RequestException
   \<and> get_reviewer_pool example_assigner offline_world = Inr [''bob'', ''carol'', ''alice'']
   \<and> run example_assigner offline_world 7 = Inr (True, [(7, [''bob''])])
   \<and> run dry_run_assigner offline_world 7 = Inr (True, [])
   \<and> run example_assigner unreachable_world 7 = Inr (False, [(7, [''bob''])])"
proof -
  have f: "reviewers_response offline_world = RequestException"
    by (simp add: offline_world_def)
  have g: "reviewers_response unreachable_world = RequestException"
    by (simp add: unreachable_world_def offline_world_def)
  have p: "get_reviewer_pool example_assigner offline_world = Inr [''bob'', ''carol'', ''alice'']"
    by (rule offline_pool)
  have q: "get_reviewer_pool dry_run_assigner offline_world = Inr [''bob'', ''carol'', ''alice'']"
    by (simp add: dry_run_assigner_def get_reviewer_pool_test_mode offline_pool)
  have r: "get_reviewer_pool example_assigner unreachable_world = Inr [''bob'', ''carol'', ''alice'']"
    by (simp add: unreachable_world_def get_reviewer_pool_post offline_pool)
  have real: "\<not> test_mode example_assigner"
    by (simp add: example_assigner_def ReviewerAssigner_def)
  have dry: "test_mode dry_run_assigner"
    by (simp add: dry_run_assigner_def)
  have ok: "post_response offline_world = Ok ()"
    by (simp add: offline_world_def example_world_def)
  have ko: "post_response unreachable_world = RequestException"
    by (simp add: unreachable_world_def)
  have 1: "run example_assigner offline_world 7 = Inr (True, [(7, [''bob''])])"
    using read_failure_as_no_reviewers [OF f, of example_assigner 7] p real ok by blast
  have 2: "run dry_run_assigner offline_world 7 = Inr (True, [])"
    using read_failure_as_no_reviewers [OF f, of dry_run_assigner 7] q dry by blast
  have 3: "run example_assigner unreachable_world 7 = Inr (False, [(7, [''bob''])])"
    using read_failure_as_no_reviewers [OF g, of example_assigner 7] r real ko by blast
  from f g p 1 2 3 show ?thesis
    by simp
qed

end
